theory Spec2Isabelle
  imports Main "HOL-Library.Word"
begin

section \<open>JavaScript strings\<close>

text \<open>
  A JavaScript string is a sequence of UTF-16 code units.  String literals of the
  source are ASCII and are embedded with \<open>js_str\<close>.
\<close>

type_synonym code_unit = "16 word"
type_synonym jsstring = "code_unit list"

definition js_str :: "string \<Rightarrow> jsstring" where
  "js_str s = map (\<lambda>c. of_nat (of_char c)) s"

text \<open>
  \<open>String.prototype.trim\<close> strips WhiteSpace and LineTerminator code points from
  both ends: TAB, LF, VT, FF, CR, SP, NBSP, the Unicode space separators, LS, PS and
  the byte order mark.
\<close>

definition isWhiteSpace :: "code_unit \<Rightarrow> bool" where
  "isWhiteSpace c =
     (c = 0x09 \<or> c = 0x0A \<or> c = 0x0B \<or> c = 0x0C \<or> c = 0x0D \<or> c = 0x20 \<or> c = 0xA0
      \<or> c = 0x1680 \<or> (0x2000 \<le> c \<and> c \<le> 0x200A) \<or> c = 0x2028 \<or> c = 0x2029
      \<or> c = 0x202F \<or> c = 0x205F \<or> c = 0x3000 \<or> c = 0xFEFF)"

definition trim :: "jsstring \<Rightarrow> jsstring" where
  "trim s = rev (dropWhile isWhiteSpace (rev (dropWhile isWhiteSpace s)))"

text \<open>\<open>s.split(',')\<close>: the pieces between the separators; the empty string gives one empty piece.\<close>

fun split :: "code_unit \<Rightarrow> jsstring \<Rightarrow> jsstring list" where
  "split sep [] = [[]]"
| "split sep (c # cs) =
     (if c = sep then [] # split sep cs
      else (case split sep cs of [] \<Rightarrow> [[c]] | w # ws \<Rightarrow> (c # w) # ws))"

text \<open>A string is truthy when it is not empty (\<open>!s\<close>, \<open>filter(Boolean)\<close>, \<open>a || b\<close>).\<close>

definition truthy :: "jsstring \<Rightarrow> bool" where
  "truthy s = (s \<noteq> [])"

text \<open>A field is blank when it is empty or holds white space only.\<close>

definition blank :: "jsstring \<Rightarrow> bool" where
  "blank s = list_all isWhiteSpace s"

section \<open>The compose form (ComposeEmail.tsx)\<close>

datatype SecurityLevel = L1 | L2 | L3 | L4

fun level_number :: "SecurityLevel \<Rightarrow> int" where
  "level_number L1 = 1"
| "level_number L2 = 2"
| "level_number L3 = 3"
| "level_number L4 = 4"

record SendEmailRequest =
  req_to :: "jsstring list"
  req_cc :: "jsstring list option"
  req_subject :: jsstring
  req_body :: jsstring
  security_level :: int

record SendEmailResponse =
  success :: bool
  message_id :: "jsstring option"
  key_id :: "jsstring option"
  security_level_used :: int
  resp_error :: "jsstring option"

text \<open>
  What \<open>await sendEmail(...)\<close> does: the promise resolves with a response, or it
  rejects with a value that is an \<open>Error\<close> (with its message) or is not one.
\<close>

datatype thrown = ErrorInstance jsstring | OtherValue

datatype send_outcome = Resolved SendEmailResponse | Rejected thrown

text \<open>The component's state variables (\<open>useState\<close>), under the source's names.\<close>

record ComposeEmail =
  to :: jsstring
  cc :: jsstring
  subject :: jsstring
  body :: jsstring
  securityLevel :: SecurityLevel
  isSending :: bool
  error :: "jsstring option"

text \<open>What a run of \<open>handleSend\<close> does beyond the state: its calls of \<open>sendEmail\<close> and of \<open>navigate\<close>.\<close>

record effects =
  sendEmail_calls :: "SendEmailRequest list"
  navigations :: "jsstring list"

definition no_effects :: effects where
  "no_effects = \<lparr>sendEmail_calls = [], navigations = []\<rparr>"

text \<open>\<open>s.split(',').map(e => e.trim()).filter(Boolean)\<close>\<close>

definition addresses :: "jsstring \<Rightarrow> jsstring list" where
  "addresses s = filter truthy (map trim (split 0x2C s))"

text \<open>
  \<open>handleSend\<close>, lines 19 to 58.  The three guards return early; otherwise
  \<open>setIsSending(true)\<close>, \<open>setError(null)\<close>, the call of \<open>sendEmail\<close> inside
  \<open>try\<close>, and \<open>setIsSending(false)\<close> in \<open>finally\<close>.
\<close>

definition handleSend :: "(SendEmailRequest \<Rightarrow> send_outcome) \<Rightarrow> ComposeEmail \<Rightarrow> ComposeEmail \<times> effects" where
  "handleSend sendEmail st =
     (if \<not> truthy (trim (to st)) then
        (st\<lparr>error := Some (js_str ''Please enter at least one recipient'')\<rparr>, no_effects)
      else if \<not> truthy (trim (subject st)) then
        (st\<lparr>error := Some (js_str ''Please enter a subject'')\<rparr>, no_effects)
      else if \<not> truthy (trim (body st)) then
        (st\<lparr>error := Some (js_str ''Please enter a message'')\<rparr>, no_effects)
      else
        let toAddresses = addresses (to st);
            ccAddresses = (if truthy (cc st) then addresses (cc st) else []);
            request = \<lparr>req_to = toAddresses, req_cc = Some ccAddresses,
                       req_subject = subject st, req_body = body st,
                       security_level = level_number (securityLevel st)\<rparr>
        in (case sendEmail request of
              Resolved result \<Rightarrow>
                if success result then
                  (st\<lparr>isSending := False, error := None\<rparr>,
                   \<lparr>sendEmail_calls = [request], navigations = [js_str ''/sent'']\<rparr>)
                else
                  (st\<lparr>isSending := False,
                      error := Some (case resp_error result of
                                       None \<Rightarrow> js_str ''Failed to send email''
                                     | Some e \<Rightarrow> if truthy e then e else js_str ''Failed to send email'')\<rparr>,
                   \<lparr>sendEmail_calls = [request], navigations = []\<rparr>)
            | Rejected err \<Rightarrow>
                (st\<lparr>isSending := False,
                    error := Some (case err of
                                     ErrorInstance message \<Rightarrow> message
                                   | OtherValue \<Rightarrow> js_str ''Failed to send email'')\<rparr>,
                 \<lparr>sendEmail_calls = [request], navigations = []\<rparr>)))"

text \<open>
  A draft that asks for level 1, and a backend answer that reports a successful send at
  level 4.
\<close>

definition draft_level1 :: ComposeEmail where
  "draft_level1 = \<lparr>to = js_str ''a@b.c'', cc = [], subject = js_str ''Hi'', body = js_str ''x'',
     securityLevel = L1, isSending = False, error = None\<rparr>"

definition sent_at_level4 :: SendEmailResponse where
  "sent_at_level4 = \<lparr>success = True, message_id = None, key_id = None,
     security_level_used = 4, resp_error = None\<rparr>"

section \<open>The compose form with attachments\<close>

text \<open>
  The second copy of the component (the file's lines 154 to 345) adds attachments and
  toasts.  Its \<open>handleSend\<close>, lines 186 to 232, lets a blank body pass when a file
  is attached, passes the files on, and reports every outcome in a toast as well.
\<close>

record File =
  file_name :: jsstring
  file_size :: nat

record ComposeEmailAttachments = ComposeEmail +
  attachments :: "File list"

record SendEmailRequestAttachments = SendEmailRequest +
  req_attachments :: "File list"

record effects_attachments =
  sent :: "SendEmailRequestAttachments list"
  navigated :: "jsstring list"
  toasts :: "(jsstring \<times> jsstring) list"

definition handleSend_attachments ::
    "(SendEmailRequestAttachments \<Rightarrow> send_outcome) \<Rightarrow> ComposeEmailAttachments
      \<Rightarrow> ComposeEmailAttachments \<times> effects_attachments" where
  "handleSend_attachments sendEmail st =
     (if \<not> truthy (trim (to st)) then
        (st\<lparr>error := Some (js_str ''Please enter at least one recipient'')\<rparr>,
         \<lparr>sent = [], navigated = [], toasts = []\<rparr>)
      else if \<not> truthy (trim (subject st)) then
        (st\<lparr>error := Some (js_str ''Please enter a subject'')\<rparr>,
         \<lparr>sent = [], navigated = [], toasts = []\<rparr>)
      else if \<not> truthy (trim (body st)) \<and> length (attachments st) = 0 then
        (st\<lparr>error := Some (js_str ''Please enter a message or add attachments'')\<rparr>,
         \<lparr>sent = [], navigated = [], toasts = []\<rparr>)
      else
        let toAddresses = addresses (to st);
            ccAddresses = (if truthy (cc st) then addresses (cc st) else []);
            request = \<lparr>req_to = toAddresses, req_cc = Some ccAddresses,
                       req_subject = subject st, req_body = body st,
                       security_level = level_number (securityLevel st),
                       req_attachments = attachments st\<rparr>
        in (case sendEmail request of
              Resolved result \<Rightarrow>
                if success result then
                  (st\<lparr>isSending := False, error := None\<rparr>,
                   \<lparr>sent = [request],
                    navigated = [js_str ''/sent''],
                    toasts = [(js_str ''Email sent successfully'', js_str ''success'')]\<rparr>)
                else
                  let errorMessage = (case resp_error result of
                                        None \<Rightarrow> js_str ''Failed to send email''
                                      | Some e \<Rightarrow> if truthy e then e else js_str ''Failed to send email'')
                  in (st\<lparr>isSending := False, error := Some errorMessage\<rparr>,
                      \<lparr>sent = [request], navigated = [],
                       toasts = [(errorMessage, js_str ''error'')]\<rparr>)
            | Rejected err \<Rightarrow>
                let errorMessage = (case err of
                                      ErrorInstance message \<Rightarrow> message
                                    | OtherValue \<Rightarrow> js_str ''Failed to send email'')
                in (st\<lparr>isSending := False, error := Some errorMessage\<rparr>,
                    \<lparr>sent = [request], navigated = [],
                     toasts = [(errorMessage, js_str ''error'')]\<rparr>)))"

text \<open>A draft with a blank body and one attached file.\<close>

definition draft_with_file :: ComposeEmailAttachments where
  "draft_with_file = \<lparr>to = js_str ''a@b.c'', cc = [], subject = js_str ''Hi'', body = js_str ''  '',
     securityLevel = L2, isSending = False, error = None,
     attachments = [\<lparr>file_name = js_str ''a.txt'', file_size = 3\<rparr>]\<rparr>"

section \<open>The security level selector (SecurityLevelSelector.tsx)\<close>

record key_material =
  otp_bytes :: int
  aes_keys :: int
  pqc_keys :: int

record SecurityStatus =
  km_connected :: bool
  km_url :: jsstring
  available_key_material :: key_material
  last_key_sync :: "jsstring option"
  supported_levels :: "int list"

text \<open>\<open>n || 0\<close> on a number: zero (and NaN) give 0, every other number itself.\<close>

definition or_zero :: "int \<Rightarrow> int" where
  "or_zero n = (if n = 0 then 0 else n)"

text \<open>
  \<open>isLevelAvailable\<close>, lines 254 to 260.  \<open>status\<close> is the hook's
  \<open>SecurityStatus | null\<close>; \<open>status?.km_connected\<close> is falsy for \<open>null\<close>.
\<close>

definition isLevelAvailable :: "SecurityStatus option \<Rightarrow> SecurityLevel \<Rightarrow> bool" where
  "isLevelAvailable status level =
     (if level = L4 then True
      else (case status of
              None \<Rightarrow> False
            | Some s \<Rightarrow>
                if \<not> km_connected s then False
                else if level = L1 \<and> or_zero (otp_bytes (available_key_material s)) < 1000 then False
                else if level = L2 \<and> or_zero (aes_keys (available_key_material s)) < 1 then False
                else True))"

text \<open>
  The button's \<open>onClick\<close>, \<open>() => available && onChange(level)\<close>, with
  \<open>onChange = setSecurityLevel\<close>: the selected level after a click on \<open>level\<close>
  when \<open>value\<close> was selected.
\<close>

definition levelClick :: "SecurityStatus option \<Rightarrow> SecurityLevel \<Rightarrow> SecurityLevel \<Rightarrow> SecurityLevel" where
  "levelClick status value level = (if isLevelAvailable status level then level else value)"

text \<open>A connected key manager that reports 2000 bytes of one-time pad and 5 AES keys.\<close>

definition status_2000 :: SecurityStatus where
  "status_2000 = \<lparr>km_connected = True, km_url = js_str ''http://localhost:8100'',
     available_key_material = \<lparr>otp_bytes = 2000, aes_keys = 5, pqc_keys = 0\<rparr>,
     last_key_sync = None, supported_levels = [1, 2, 3, 4]\<rparr>"

text \<open>The same with no one-time pad left.\<close>

definition status_no_otp :: SecurityStatus where
  "status_no_otp = status_2000\<lparr>available_key_material := \<lparr>otp_bytes = 0, aes_keys = 5, pqc_keys = 0\<rparr>\<rparr>"

section \<open>The API client (api/client.ts)\<close>

text \<open>
  A parsed JSON value.  An object is its properties as key and value pairs, each key once;
  numbers are integers here (error bodies carry status codes and counts).
\<close>

datatype json = JNull | JBool bool | JNum int | JStr jsstring | JArr "json list"
  | JObj "(jsstring \<times> json) list"

text \<open>Truthiness of a parsed value, as \<open>a || b\<close> tests it.\<close>

fun json_truthy :: "json \<Rightarrow> bool" where
  "json_truthy JNull = False"
| "json_truthy (JBool b) = b"
| "json_truthy (JNum n) = (n \<noteq> 0)"
| "json_truthy (JStr s) = truthy s"
| "json_truthy (JArr xs) = True"
| "json_truthy (JObj kvs) = True"

text \<open>Decimal digits of a number, as a template literal prints it.\<close>

fun digits :: "nat \<Rightarrow> jsstring" where
  "digits n = (if n < 10 then [0x30 + of_nat n] else digits (n div 10) @ [0x30 + of_nat (n mod 10)])"

definition int_to_string :: "int \<Rightarrow> jsstring" where
  "int_to_string i = (if i < 0 then 0x2D # digits (nat (- i)) else digits (nat i))"

fun join :: "jsstring \<Rightarrow> jsstring list \<Rightarrow> jsstring" where
  "join sep [] = []"
| "join sep [s] = s"
| "join sep (s # t # ss) = s @ sep @ join sep (t # ss)"

text \<open>
  \<open>String(v)\<close>, which \<open>new Error(v)\<close> applies to its argument: an array joins its
  elements with commas (\<open>null\<close> as the empty string), an object prints as
  \<open>[object Object]\<close>.
\<close>

fun to_string :: "json \<Rightarrow> jsstring" where
  "to_string JNull = js_str ''null''"
| "to_string (JBool b) = (if b then js_str ''true'' else js_str ''false'')"
| "to_string (JNum n) = int_to_string n"
| "to_string (JStr s) = s"
| "to_string (JArr xs) = join (js_str '','') (map (\<lambda>x. if x = JNull then [] else to_string x) xs)"
| "to_string (JObj kvs) = js_str ''[object Object]''"

text \<open>
  What \<open>fetch\<close> resolves with: the status, and the body as \<open>response.json()\<close> parses
  it (none when the body is not JSON and the parse rejects).  \<open>response.ok\<close> is true
  for the statuses 200 to 299.
\<close>

record Response =
  status :: nat
  json_body :: "json option"

definition ok :: "Response \<Rightarrow> bool" where
  "ok response = (200 \<le> status response \<and> status response \<le> 299)"

datatype fetch_outcome = NetworkFailure | Responded Response

datatype request_body = FormData "(jsstring \<times> jsstring) list" | StringBody jsstring

record RequestInit =
  init_method :: "jsstring option"
  init_headers :: "(jsstring \<times> jsstring) list option"
  init_body :: "request_body option"

text \<open>
  A \<open>Headers\<close> object: a map from lower-case names to values.  \<open>append\<close> joins a
  second value for a name with a comma and a space, \<open>set\<close> replaces.  Names and values
  are taken to be valid header names and values.
\<close>

type_synonym Headers = "jsstring \<rightharpoonup> jsstring"

definition lower_unit :: "code_unit \<Rightarrow> code_unit" where
  "lower_unit c = (if 0x41 \<le> c \<and> c \<le> 0x5A then c + 0x20 else c)"

definition lower :: "jsstring \<Rightarrow> jsstring" where
  "lower s = map lower_unit s"

definition headers_append :: "jsstring \<times> jsstring \<Rightarrow> Headers \<Rightarrow> Headers" where
  "headers_append kv h =
     h(lower (fst kv) \<mapsto> (case h (lower (fst kv)) of None \<Rightarrow> snd kv
                                 | Some old \<Rightarrow> old @ js_str '', '' @ snd kv))"

definition new_Headers :: "(jsstring \<times> jsstring) list \<Rightarrow> Headers" where
  "new_Headers init = fold headers_append init Map.empty"

text \<open>The module: its \<open>authToken\<close> variable, and the events dispatched on \<open>window\<close> so far.\<close>

record client =
  authToken :: "jsstring option"
  dispatched :: "jsstring list"

definition setAuthToken :: "jsstring \<Rightarrow> client \<Rightarrow> client" where
  "setAuthToken token c = c\<lparr>authToken := Some token\<rparr>"

definition getAuthToken :: "client \<Rightarrow> jsstring option" where
  "getAuthToken c = authToken c"

text \<open>What \<open>request\<close> throws.  All three are instances of \<open>Error\<close>.\<close>

datatype exception = Error jsstring | TypeError | SyntaxError

text \<open>What \<open>request\<close> hands to \<open>fetch\<close>.\<close>

record fetch_call =
  url :: jsstring
  call_method :: "jsstring option"
  call_headers :: Headers
  call_body :: "request_body option"

definition API_BASE :: jsstring where
  "API_BASE = js_str ''/api/v1''"

text \<open>
  Lines 30 to 47: the defaults (\<open>Content-Type\<close> unless the body is form data,
  \<open>Authorization\<close> when the token is truthy), then every header of the options
  \<open>set\<close> over them.
\<close>

definition request_headers :: "client \<Rightarrow> RequestInit \<Rightarrow> Headers" where
  "request_headers c options =
     (let isFormData = (case init_body options of Some (FormData fd) \<Rightarrow> True | _ \<Rightarrow> False);
          defaults = (if \<not> isFormData then [(js_str ''Content-Type'', js_str ''application/json'')] else [])
                   @ (case authToken c of
                        None \<Rightarrow> []
                      | Some t \<Rightarrow> if truthy t then [(js_str ''Authorization'', js_str ''Bearer '' @ t)] else [])
      in new_Headers defaults ++ (case init_headers options of None \<Rightarrow> Map.empty | Some hs \<Rightarrow> new_Headers hs))"

text \<open>\<open>errorData.detail\<close>: reading a property of \<open>null\<close> throws, of a value that has none gives \<open>undefined\<close>.\<close>

fun detail :: "json \<Rightarrow> exception + json option" where
  "detail JNull = Inl TypeError"
| "detail (JObj kvs) = Inr (map_of kvs (js_str ''detail''))"
| "detail v = Inr None"

text \<open>Whether the caller's own options name an \<open>Authorization\<close> header, in any case of letters.\<close>

definition own_authorization :: "RequestInit \<Rightarrow> bool" where
  "own_authorization options =
     (case init_headers options of
        None \<Rightarrow> False
      | Some hs \<Rightarrow> list_ex (\<lambda>kv. lower (fst kv) = js_str ''authorization'') hs)"

text \<open>The call of \<open>fetch\<close> in lines 49 to 52: the URL, and the options with the headers built above.\<close>

definition fetch_call_of :: "client \<Rightarrow> jsstring \<Rightarrow> RequestInit \<Rightarrow> fetch_call" where
  "fetch_call_of c endpoint options =
     \<lparr>url = API_BASE @ endpoint, call_method = init_method options,
      call_headers = request_headers c options, call_body = init_body options\<rparr>"

text \<open>
  \<open>request\<close>, lines 13 to 64, with \<open>fetch\<close> as the function it calls.  The result is
  the value the promise resolves with, or what it rejects with, and the module's state
  afterwards.
\<close>

definition request :: "(fetch_call \<Rightarrow> fetch_outcome) \<Rightarrow> jsstring \<Rightarrow> RequestInit \<Rightarrow> client \<Rightarrow> (exception + json) \<times> client" where
  "request fetch endpoint options c =
     (case fetch (fetch_call_of c endpoint options) of
        NetworkFailure \<Rightarrow> (Inl TypeError, c)
      | Responded response \<Rightarrow>
          if \<not> ok response then
            let c' = (if status response = 401
                      then c\<lparr>authToken := None, dispatched := dispatched c @ [js_str ''qumail:unauthorized'']\<rparr>
                      else c);
                errorData = (case json_body response of None \<Rightarrow> JObj [] | Some d \<Rightarrow> d)
            in (case detail errorData of
                  Inl e \<Rightarrow> (Inl e, c')
                | Inr d \<Rightarrow>
                    (Inl (Error (case d of
                                   None \<Rightarrow> js_str ''Request failed: '' @ digits (status response)
                                 | Some v \<Rightarrow> if json_truthy v then to_string v
                                            else js_str ''Request failed: '' @ digits (status response))), c'))
          else (case json_body response of
                  None \<Rightarrow> (Inl SyntaxError, c)
                | Some d \<Rightarrow> (Inr d, c)))"

text \<open>A 401 answer of the backend, a module that holds a token, and a request with no headers of its own.\<close>

definition expired_session :: Response where
  "expired_session = \<lparr>status = 401, json_body = Some (JObj [(js_str ''detail'', JStr (js_str ''Invalid token''))])\<rparr>"

definition logged_in :: client where
  "logged_in = \<lparr>authToken = Some (js_str ''tok''), dispatched = []\<rparr>"

definition plain_get :: RequestInit where
  "plain_get = \<lparr>init_method = Some (js_str ''GET''), init_headers = None, init_body = None\<rparr>"

section \<open>The key pool authority\<close>

text \<open>
  The key manager is a service of the backend; the client code reaches it through the
  backend only, and its code is not among the sources.  Its data and operations are
  modelled from the specification, sections 3 and 4.1.
\<close>

type_synonym byte = "8 word"
type_synonym bytes = "byte list"
type_synonym UUID = nat
type_synonym PeerId = string
type_synonym time = nat

text \<open>
  Modelled from the spec: the key manager's data model (section 3), key material with what
  it is for and a key record with its lifecycle state.  The material also carries the raw
  bytes, as the wire shape of section 6 does.
\<close>

datatype purpose = otp_seed | aes_seed

datatype key_state = Provisioned | Reserved | Consumed | Released

record KeyMaterial =
  material_key_id :: UUID
  owner_peer :: PeerId
  byte_length :: nat
  key_purpose :: purpose
  created_at :: time
  expires_at :: time
  key_bytes :: bytes

record KeyRecord =
  record_key_id :: UUID
  state :: key_state
  peer_id :: PeerId
  size_bytes :: nat
  reserved_at :: "time option"
  consumed_at :: "time option"

text \<open>
  Modelled from the spec: the key pool authority's store, which is not among the sources.
  It holds the authoritative record and the server's copy of the material of every key,
  the configured ceiling of bytes per peer, the reservation time (60 seconds by default)
  and the lifetime of issued material.  Key identifiers are fresh: they come from a counter.
  The random source is a stream of bytes, read from position \<open>drawn\<close> on.
\<close>

record KPA =
  records :: "UUID \<Rightarrow> KeyRecord option"
  vault :: "UUID \<Rightarrow> KeyMaterial option"
  next_key_id :: UUID
  ceiling :: nat
  reservation_ttl :: time
  key_lifetime :: time
  entropy :: "nat \<Rightarrow> byte"
  drawn :: nat

text \<open>
  Modelled from the spec: the pool as the key manager starts it, with no keys, the given
  ceiling and random source, and the default reservation time.
\<close>

definition new_pool :: "nat \<Rightarrow> (nat \<Rightarrow> byte) \<Rightarrow> KPA" where
  "new_pool max_bytes source =
     \<lparr>records = (\<lambda>k. None), vault = (\<lambda>k. None), next_key_id = 0, ceiling = max_bytes,
      reservation_ttl = 60, key_lifetime = 86400, entropy = source, drawn = 0\<rparr>"

text \<open>Modelled from the spec: the failures the key manager's operations return (section 7).\<close>

datatype kpa_error = Exhausted | NotFound | Gone | AlreadyConsumed

text \<open>
  Modelled from the spec: the bytes of the pool that a peer holds, which the ceiling
  bounds: the sizes of the peer's keys that are not consumed.
\<close>

definition pool_bytes :: "KPA \<Rightarrow> PeerId \<Rightarrow> nat" where
  "pool_bytes s peer =
     sum_list (map (\<lambda>k. case records s k of
                            None \<Rightarrow> 0
                          | Some r \<Rightarrow> if peer_id r = peer \<and> state r \<noteq> Consumed then size_bytes r else 0)
                   [0..<next_key_id s])"

text \<open>
  Modelled from the spec: \<open>request(peer_id, size_bytes, purpose)\<close>.  It fails with
  \<open>Exhausted\<close> when the peer's ceiling would be exceeded; otherwise it draws
  \<open>size_bytes\<close> random bytes, creates the record (\<open>Provisioned\<close>, at once
  \<open>Reserved\<close>) and returns the material.
\<close>

definition kpa_request :: "time \<Rightarrow> PeerId \<Rightarrow> nat \<Rightarrow> purpose \<Rightarrow> KPA \<Rightarrow> (kpa_error + KeyMaterial) \<times> KPA" where
  "kpa_request now peer n p s =
     (if ceiling s < pool_bytes s peer + n then (Inl Exhausted, s)
      else
        let k = next_key_id s;
            m = \<lparr>material_key_id = k, owner_peer = peer, byte_length = n, key_purpose = p,
                 created_at = now, expires_at = now + key_lifetime s,
                 key_bytes = map (entropy s) [drawn s..<drawn s + n]\<rparr>;
            r = \<lparr>record_key_id = k, state = Reserved, peer_id = peer, size_bytes = n,
                 reserved_at = Some now, consumed_at = None\<rparr>
        in (Inr m, s\<lparr>records := (records s)(k := Some r), vault := (vault s)(k := Some m),
                      next_key_id := Suc k, drawn := drawn s + n\<rparr>))"

text \<open>
  Modelled from the spec: \<open>retrieve(key_id)\<close> returns the material of a \<open>Reserved\<close>
  key, fails with \<open>Gone\<close> for a \<open>Consumed\<close> one, and with \<open>NotFound\<close> otherwise.
\<close>

definition kpa_retrieve :: "UUID \<Rightarrow> KPA \<Rightarrow> kpa_error + KeyMaterial" where
  "kpa_retrieve k s =
     (case records s k of
        None \<Rightarrow> Inl NotFound
      | Some r \<Rightarrow>
          if state r = Consumed then Inl Gone
          else if state r = Reserved then (case vault s k of None \<Rightarrow> Inl NotFound | Some m \<Rightarrow> Inr m)
          else Inl NotFound)"

text \<open>
  Modelled from the spec: zeroization, which the key manager applies to its copy of a
  consumed key: every byte is overwritten with zero.
\<close>

definition zeroize :: "KeyMaterial \<Rightarrow> KeyMaterial" where
  "zeroize m = m\<lparr>key_bytes := replicate (length (key_bytes m)) 0\<rparr>"

text \<open>
  Modelled from the spec: \<open>consume(key_id)\<close> takes a \<open>Reserved\<close> key to
  \<open>Consumed\<close>, acknowledges with the time, and zeroizes the server's copy; a second
  call fails with \<open>AlreadyConsumed\<close>, an unknown or unreserved key with \<open>NotFound\<close>.
\<close>

definition kpa_consume :: "time \<Rightarrow> UUID \<Rightarrow> KPA \<Rightarrow> (kpa_error + time) \<times> KPA" where
  "kpa_consume now k s =
     (case records s k of
        None \<Rightarrow> (Inl NotFound, s)
      | Some r \<Rightarrow>
          if state r = Consumed then (Inl AlreadyConsumed, s)
          else if state r = Reserved then
            (Inr now, s\<lparr>records := (records s)(k := Some (r\<lparr>state := Consumed, consumed_at := Some now\<rparr>)),
                        vault := (vault s)(k := map_option zeroize (vault s k))\<rparr>)
          else (Inl NotFound, s))"

text \<open>
  Modelled from the spec: \<open>release(key_id)\<close> takes a \<open>Reserved\<close> key back to
  \<open>Provisioned\<close> and acknowledges; on any other key it acknowledges and changes nothing.
\<close>

definition kpa_release :: "UUID \<Rightarrow> KPA \<Rightarrow> KPA" where
  "kpa_release k s =
     (case records s k of
        None \<Rightarrow> s
      | Some r \<Rightarrow>
          if state r = Reserved
          then s\<lparr>records := (records s)(k := Some (r\<lparr>state := Provisioned, reserved_at := None\<rparr>))\<rparr>
          else s)"

text \<open>
  Modelled from the spec: \<open>status(peer_id?)\<close>, the bytes and the number of the keys that
  are \<open>Provisioned\<close>, of one peer or of all.
\<close>

definition available :: "KPA \<Rightarrow> PeerId option \<Rightarrow> KeyRecord list" where
  "available s peer =
     filter (\<lambda>r. state r = Provisioned \<and> (case peer of None \<Rightarrow> True | Some p \<Rightarrow> peer_id r = p))
       (List.map_filter (records s) [0..<next_key_id s])"

definition kpa_status :: "PeerId option \<Rightarrow> KPA \<Rightarrow> nat \<times> nat" where
  "kpa_status peer s = (sum_list (map size_bytes (available s peer)), length (available s peer))"

text \<open>
  Modelled from the spec: the reservation sweep releases every \<open>Reserved\<close> key whose
  reservation time has elapsed.
\<close>

definition expired :: "time \<Rightarrow> KPA \<Rightarrow> UUID \<Rightarrow> bool" where
  "expired now s k =
     (case records s k of
        None \<Rightarrow> False
      | Some r \<Rightarrow> state r = Reserved
          \<and> (case reserved_at r of None \<Rightarrow> False | Some t \<Rightarrow> t + reservation_ttl s \<le> now))"

text \<open>Modelled from the spec: the sweep itself, over every key issued so far.\<close>

definition kpa_sweep :: "time \<Rightarrow> KPA \<Rightarrow> KPA" where
  "kpa_sweep now s = fold (\<lambda>k s'. if expired now s' k then kpa_release k s' else s') [0..<next_key_id s] s"

text \<open>
  Modelled from the spec: the key manager's interface as a whole, its operations as
  values with their replies, and a run of operations one after the other.
\<close>

datatype kpa_op = Request time PeerId nat purpose | Retrieve UUID | Consume time UUID
  | Release UUID | Status "PeerId option" | Sweep time

datatype kpa_reply = Material KeyMaterial | Failed kpa_error | ConsumedAt time | Ack
  | StatusReport nat nat

fun kpa_step :: "kpa_op \<Rightarrow> KPA \<Rightarrow> kpa_reply \<times> KPA" where
  "kpa_step (Request now peer n p) s =
     (case kpa_request now peer n p s of
        (Inl e, s') \<Rightarrow> (Failed e, s')
      | (Inr m, s') \<Rightarrow> (Material m, s'))"
| "kpa_step (Retrieve k) s =
     (case kpa_retrieve k s of Inl e \<Rightarrow> (Failed e, s) | Inr m \<Rightarrow> (Material m, s))"
| "kpa_step (Consume now k) s =
     (case kpa_consume now k s of
        (Inl e, s') \<Rightarrow> (Failed e, s')
      | (Inr t, s') \<Rightarrow> (ConsumedAt t, s'))"
| "kpa_step (Release k) s = (Ack, kpa_release k s)"
| "kpa_step (Status peer) s = (case kpa_status peer s of (b, n) \<Rightarrow> (StatusReport b n, s))"
| "kpa_step (Sweep now) s = (Ack, kpa_sweep now s)"

fun kpa_run :: "kpa_op list \<Rightarrow> KPA \<Rightarrow> kpa_reply list \<times> KPA" where
  "kpa_run [] s = ([], s)"
| "kpa_run (op # ops) s =
     (case kpa_step op s of (reply, s') \<Rightarrow>
        (case kpa_run ops s' of (replies, s'') \<Rightarrow> (reply # replies, s'')))"

text \<open>
  Every key of the store was issued: its identifier lies below the counter, and the
  server's copy filed under an identifier carries that identifier.
\<close>

definition pool_ok :: "KPA \<Rightarrow> bool" where
  "pool_ok s = (\<forall>k. (records s k \<noteq> None \<longrightarrow> k < next_key_id s)
                  \<and> (\<forall>m. vault s k = Some m \<longrightarrow> material_key_id m = k))"

text \<open>The key is consumed: its record says so and the server's copy holds zeros only.\<close>

definition consumed :: "KPA \<Rightarrow> UUID \<Rightarrow> bool" where
  "consumed s k =
     ((case records s k of None \<Rightarrow> False | Some r \<Rightarrow> state r = Consumed)
      \<and> (case vault s k of None \<Rightarrow> True | Some m \<Rightarrow> list_all (\<lambda>b. b = 0) (key_bytes m)))"

text \<open>
  A reply denies key \<open>k\<close>: it carries no material of \<open>k\<close>, a \<open>retrieve\<close> of \<open>k\<close>
  is answered \<open>Gone\<close> and a \<open>consume\<close> of \<open>k\<close> is answered \<open>AlreadyConsumed\<close>.
\<close>

definition denies :: "UUID \<Rightarrow> kpa_op \<Rightarrow> kpa_reply \<Rightarrow> bool" where
  "denies k op reply =
     ((case reply of Material m \<Rightarrow> material_key_id m \<noteq> k | _ \<Rightarrow> True)
      \<and> (case op of
            Retrieve j \<Rightarrow> j \<noteq> k \<or> reply = Failed Gone
          | Consume t j \<Rightarrow> j \<noteq> k \<or> reply = Failed AlreadyConsumed
          | _ \<Rightarrow> True))"

text \<open>A pool with a ceiling of 64 bytes per peer, and a run on it.\<close>

definition small_pool :: KPA where
  "small_pool = new_pool 64 (\<lambda>i. of_nat (7 * i + 1))"

definition after_request :: KPA where
  "after_request = snd (kpa_step (Request 100 ''bob'' 4 otp_seed) small_pool)"

definition after_consume :: KPA where
  "after_consume = snd (kpa_step (Consume 101 0) after_request)"

unbundle bit_operations_syntax

section \<open>The encryption engine\<close>

text \<open>
  The engine runs in the backend and its code is not among the sources.  Its transforms
  are modelled from the specification, sections 3 and 4.3, over cryptographic primitives
  that are parameters: the keyed hash, the key derivation, the authenticated cipher, the
  key encapsulation and the signature scheme.
\<close>

text \<open>
  Modelled from the spec: the engine's security envelope (section 3) and the two failures
  of decryption and of a structural mismatch (section 7).
\<close>

record SecurityEnvelope =
  version :: nat
  envelope_level :: SecurityLevel
  algorithm_id :: string
  envelope_key_id :: "UUID option"
  nonce :: "bytes option"
  tag :: "bytes option"
  ciphertext :: bytes
  aux_kem_ciphertext :: "bytes option"
  signature :: "bytes option"

datatype ee_error = IntegrityFailure | MalformedEnvelope

text \<open>
  Modelled from the spec: the primitives the engine's table names (section 4.3).  The
  key derivation returns the pair of a key and a MAC context; the cipher takes key,
  nonce, associated data and plaintext and returns ciphertext and tag; the encapsulation
  takes the public key and its randomness and returns ciphertext and shared secret.
\<close>

record primitives =
  hmac :: "bytes \<Rightarrow> bytes \<Rightarrow> bytes"
  hkdf :: "bytes \<Rightarrow> bytes \<Rightarrow> bytes \<times> bytes"
  aead_encrypt :: "bytes \<Rightarrow> bytes \<Rightarrow> bytes \<Rightarrow> bytes \<Rightarrow> bytes \<times> bytes"
  aead_decrypt :: "bytes \<Rightarrow> bytes \<Rightarrow> bytes \<Rightarrow> bytes \<Rightarrow> bytes \<Rightarrow> bytes option"
  kem_encapsulate :: "bytes \<Rightarrow> bytes \<Rightarrow> bytes \<times> bytes"
  kem_decapsulate :: "bytes \<Rightarrow> bytes \<Rightarrow> bytes"
  sign :: "bytes \<Rightarrow> bytes \<Rightarrow> bytes"
  verify :: "bytes \<Rightarrow> bytes \<Rightarrow> bytes \<Rightarrow> bool"

text \<open>
  Modelled from the spec: what the sender's side brings to the engine's encryption: the key acquired for the message, the
  context string of the derivation, the fresh nonce, and for level 3 the recipient's
  encapsulation key, the randomness of the encapsulation and an optional signing key.
\<close>

record encrypt_context =
  acquired :: KeyMaterial
  context_string :: bytes
  fresh_nonce :: bytes
  recipient_public_key :: bytes
  kem_randomness :: bytes
  signing_key :: "bytes option"

text \<open>Modelled from the spec: what the recipient's side brings to the engine's decryption.\<close>

record decrypt_context =
  fetched :: KeyMaterial
  derivation_context :: bytes
  recipient_secret_key :: bytes
  sender_verify_key :: bytes

text \<open>Modelled from the spec: the engine's byte-wise XOR of two byte strings.\<close>

definition xor_bytes :: "bytes \<Rightarrow> bytes \<Rightarrow> bytes" where
  "xor_bytes xs ys = map (\<lambda>(x, y). x XOR y) (zip xs ys)"

text \<open>
  Modelled from the spec: the label of the engine's domain-separated derivation of the
  level 1 tag key, so that the tag is never keyed with the raw pad.
\<close>

definition otp_mac_label :: bytes where
  "otp_mac_label = map (\<lambda>c. of_nat (of_char c)) ''otp-integrity''"

text \<open>
  Modelled from the spec: the engine's \<open>encrypt\<close>, which is not among the sources.
  Level 1 checks that key and plaintext have the same length, XORs them and tags the
  ciphertext with a key derived from the pad; level 2 derives the cipher key and the MAC
  context from the seed and encrypts with the authenticated cipher under the fresh nonce;
  level 3 encapsulates to the recipient, derives the cipher key from the shared secret and
  the seed, encrypts as level 2 and signs the ciphertext when a signing key is given;
  level 4 passes the plaintext through.
\<close>

definition encrypt :: "primitives \<Rightarrow> SecurityLevel \<Rightarrow> bytes \<Rightarrow> encrypt_context \<Rightarrow> ee_error + SecurityEnvelope" where
  "encrypt P level plaintext e =
     (case level of
        L1 \<Rightarrow>
          if length (key_bytes (acquired e)) \<noteq> length plaintext then Inl MalformedEnvelope
          else
            let c = xor_bytes plaintext (key_bytes (acquired e));
                mac_key = fst (hkdf P (key_bytes (acquired e)) otp_mac_label)
            in Inr \<lparr>version = 1, envelope_level = L1, algorithm_id = ''OTP'',
                     envelope_key_id = Some (material_key_id (acquired e)), nonce = None,
                     tag = Some (hmac P mac_key c), ciphertext = c,
                     aux_kem_ciphertext = None, signature = None\<rparr>
      | L2 \<Rightarrow>
          let (encryption_key, mac_context) = hkdf P (key_bytes (acquired e)) (context_string e);
              (c, t) = aead_encrypt P encryption_key (fresh_nonce e) mac_context plaintext
          in Inr \<lparr>version = 1, envelope_level = L2, algorithm_id = ''AES-256-GCM'',
                   envelope_key_id = Some (material_key_id (acquired e)), nonce = Some (fresh_nonce e),
                   tag = Some t, ciphertext = c, aux_kem_ciphertext = None, signature = None\<rparr>
      | L3 \<Rightarrow>
          let (kem_ciphertext, shared_secret) = kem_encapsulate P (recipient_public_key e) (kem_randomness e);
              (encryption_key, mac_context) = hkdf P (shared_secret @ key_bytes (acquired e)) (context_string e);
              (c, t) = aead_encrypt P encryption_key (fresh_nonce e) mac_context plaintext
          in Inr \<lparr>version = 1, envelope_level = L3, algorithm_id = ''KYBER-AES-256-GCM'',
                   envelope_key_id = Some (material_key_id (acquired e)), nonce = Some (fresh_nonce e),
                   tag = Some t, ciphertext = c, aux_kem_ciphertext = Some kem_ciphertext,
                   signature = map_option (\<lambda>sk. sign P sk c) (signing_key e)\<rparr>
      | L4 \<Rightarrow>
          Inr \<lparr>version = 1, envelope_level = L4, algorithm_id = ''NONE'', envelope_key_id = None,
                nonce = None, tag = None, ciphertext = plaintext, aux_kem_ciphertext = None,
                signature = None\<rparr>)"

text \<open>
  Modelled from the spec: the engine's \<open>decrypt\<close>, which is not among the sources.
  An envelope that lacks a field of its level, and a level 1 key whose length is not the
  ciphertext's, is \<open>MalformedEnvelope\<close>; a tag or signature that does not verify is
  \<open>IntegrityFailure\<close>; plaintext is returned only after the check has passed.
\<close>

definition decrypt :: "primitives \<Rightarrow> SecurityEnvelope \<Rightarrow> decrypt_context \<Rightarrow> ee_error + bytes" where
  "decrypt P env d =
     (case envelope_level env of
        L1 \<Rightarrow>
          if length (key_bytes (fetched d)) \<noteq> length (ciphertext env) then Inl MalformedEnvelope
          else (case tag env of
                  None \<Rightarrow> Inl MalformedEnvelope
                | Some t \<Rightarrow>
                    if t \<noteq> hmac P (fst (hkdf P (key_bytes (fetched d)) otp_mac_label)) (ciphertext env)
                    then Inl IntegrityFailure
                    else Inr (xor_bytes (ciphertext env) (key_bytes (fetched d))))
      | L2 \<Rightarrow>
          (case (nonce env, tag env) of
             (Some n, Some t) \<Rightarrow>
               let (encryption_key, mac_context) = hkdf P (key_bytes (fetched d)) (derivation_context d)
               in (case aead_decrypt P encryption_key n mac_context (ciphertext env) t of
                     None \<Rightarrow> Inl IntegrityFailure
                   | Some plaintext \<Rightarrow> Inr plaintext)
           | _ \<Rightarrow> Inl MalformedEnvelope)
      | L3 \<Rightarrow>
          (case (nonce env, tag env, aux_kem_ciphertext env) of
             (Some n, Some t, Some kem_ciphertext) \<Rightarrow>
               if (case signature env of
                     None \<Rightarrow> False
                   | Some sg \<Rightarrow> \<not> verify P (sender_verify_key d) (ciphertext env) sg)
               then Inl IntegrityFailure
               else
                 let shared_secret = kem_decapsulate P (recipient_secret_key d) kem_ciphertext;
                     (encryption_key, mac_context) =
                        hkdf P (shared_secret @ key_bytes (fetched d)) (derivation_context d)
                 in (case aead_decrypt P encryption_key n mac_context (ciphertext env) t of
                       None \<Rightarrow> Inl IntegrityFailure
                     | Some plaintext \<Rightarrow> Inr plaintext)
           | _ \<Rightarrow> Inl MalformedEnvelope)
      | L4 \<Rightarrow> Inr (ciphertext env))"

text \<open>
  The primitives do what their schemes promise: the authenticated cipher decrypts what it
  encrypted under the same key, nonce and associated data.
\<close>

definition cipher_inverts :: "primitives \<Rightarrow> bool" where
  "cipher_inverts P =
     (\<forall>k n a p. aead_decrypt P k n a (fst (aead_encrypt P k n a p)) (snd (aead_encrypt P k n a p)) = Some p)"

text \<open>
  A valid key context: both sides hold the same key material and context string; the
  recipient's secret key decapsulates what was encapsulated to its public key; the
  sender's verification key accepts what the signing key signs; and at level 1 the key
  is as long as the plaintext.
\<close>

definition valid_key_context :: "primitives \<Rightarrow> SecurityLevel \<Rightarrow> bytes \<Rightarrow> encrypt_context \<Rightarrow> decrypt_context \<Rightarrow> bool" where
  "valid_key_context P level plaintext e d =
     (key_bytes (fetched d) = key_bytes (acquired e)
      \<and> derivation_context d = context_string e
      \<and> kem_decapsulate P (recipient_secret_key d)
            (fst (kem_encapsulate P (recipient_public_key e) (kem_randomness e)))
          = snd (kem_encapsulate P (recipient_public_key e) (kem_randomness e))
      \<and> (case signing_key e of
            None \<Rightarrow> True
          | Some sk \<Rightarrow> \<forall>msg. verify P (sender_verify_key d) msg (sign P sk msg))
      \<and> (if level = L1 then length (key_bytes (acquired e)) = length plaintext else True))"

text \<open>
  Stand-in primitives for running the engine: they have the algebra of the schemes and
  none of their security.
\<close>

definition toy :: primitives where
  "toy = \<lparr>hmac = (\<lambda>k m. k @ m),
          hkdf = (\<lambda>seed context. (seed @ context, context)),
          aead_encrypt = (\<lambda>k n a p. (rev p, k @ n @ a)),
          aead_decrypt = (\<lambda>k n a c t. if t = k @ n @ a then Some (rev c) else None),
          kem_encapsulate = (\<lambda>pk r. (r, pk @ r)),
          kem_decapsulate = (\<lambda>sk c. sk @ c),
          sign = (\<lambda>sk m. sk @ m),
          verify = (\<lambda>vk m sg. sg = vk @ m)\<rparr>"

definition pad3 :: KeyMaterial where
  "pad3 = \<lparr>material_key_id = 7, owner_peer = ''bob'', byte_length = 3, key_purpose = otp_seed,
           created_at = 100, expires_at = 160, key_bytes = [0x0F, 0xF0, 0xAA]\<rparr>"

definition sender :: encrypt_context where
  "sender = \<lparr>acquired = pad3, context_string = [1], fresh_nonce = [9, 9], recipient_public_key = [5],
             kem_randomness = [6], signing_key = Some [3]\<rparr>"

definition recipient :: decrypt_context where
  "recipient = \<lparr>fetched = pad3, derivation_context = [1], recipient_secret_key = [5],
                sender_verify_key = [3]\<rparr>"

section \<open>Facts about strings\<close>

lemma dropWhile_all: "(\<forall>x\<in>set (dropWhile P xs). P x) = (\<forall>x\<in>set xs. P x)"
  by (induction xs) auto

lemma trim_empty_iff: "(trim s = []) = blank s"
  by (simp add: trim_def blank_def dropWhile_eq_Nil_conv dropWhile_all list_all_iff)

lemma not_truthy_trim: "(\<not> truthy (trim s)) = blank s"
  by (simp add: truthy_def trim_empty_iff)

section \<open>The send guard\<close>

text \<open>
  C10.  In every state of the compose form whose recipient, subject or body field is
  blank (empty or white space only), \<open>handleSend\<close> sets a validation message and
  returns without calling \<open>sendEmail\<close>: whatever the backend would answer, no request
  is issued, nothing is navigated to, and the state changes in its error message only.
\<close>

theorem handleSend_blank_guard:
  assumes "blank (to st) \<or> blank (subject st) \<or> blank (body st)"
  shows "sendEmail_calls (snd (handleSend sendEmail st)) = []
       \<and> navigations (snd (handleSend sendEmail st)) = []
       \<and> error (fst (handleSend sendEmail st)) \<in>
            {Some (js_str ''Please enter at least one recipient''),
             Some (js_str ''Please enter a subject''),
             Some (js_str ''Please enter a message'')}
       \<and> fst (handleSend sendEmail st) = st\<lparr>error := error (fst (handleSend sendEmail st))\<rparr>"
  using assms
  by (auto simp: handleSend_def not_truthy_trim no_effects_def)

theorem handleSend_blank_guard_witness:
  "blank (js_str ''  '')
   \<and> sendEmail_calls (snd (handleSend (\<lambda>r. Rejected OtherValue)
        \<lparr>to = js_str ''a@b.c'', cc = [], subject = js_str ''Hi'', body = js_str ''  '',
         securityLevel = L2, isSending = False, error = None\<rparr>)) = []
   \<and> error (fst (handleSend (\<lambda>r. Rejected OtherValue)
        \<lparr>to = js_str ''a@b.c'', cc = [], subject = js_str ''Hi'', body = js_str ''  '',
         securityLevel = L2, isSending = False, error = None\<rparr>))
       = Some (js_str ''Please enter a message'')"
proof -
  let ?st = "\<lparr>to = js_str ''a@b.c'', cc = [], subject = js_str ''Hi'', body = js_str ''  '',
         securityLevel = L2, isSending = False, error = None\<rparr>"
  have b: "blank (js_str ''  '')"
    by (simp add: blank_def js_str_def isWhiteSpace_def)
  then have "blank (to ?st) \<or> blank (subject ?st) \<or> blank (body ?st)"
    by simp
  from handleSend_blank_guard [OF this, of "\<lambda>r. Rejected OtherValue"]
  have "sendEmail_calls (snd (handleSend (\<lambda>r. Rejected OtherValue) ?st)) = []"
    by simp
  moreover have "error (fst (handleSend (\<lambda>r. Rejected OtherValue) ?st))
       = Some (js_str ''Please enter a message'')"
    by (simp add: handleSend_def truthy_def trim_def js_str_def isWhiteSpace_def)
  ultimately show ?thesis using b by simp
qed

section \<open>Degradation and the caller\<close>

lemma sample_fields_not_blank:
  "\<not> blank (js_str ''a@b.c'')" "\<not> blank (js_str ''Hi'')" "\<not> blank (js_str ''x'')"
  by (simp_all add: blank_def js_str_def isWhiteSpace_def)

text \<open>
  C7, as the code has it.  The send response carries the level that was used
  (\<open>security_level_used\<close>) and no reason code, and \<open>handleSend\<close> never reads it: for
  a form that passes the guards and a response with \<open>success\<close>, it clears the error
  message and navigates to the sent folder whatever level was used, so the run is the
  same as one in which any other level was reported.
\<close>

theorem handleSend_ignores_level_used:
  assumes "\<not> blank (to st)" "\<not> blank (subject st)" "\<not> blank (body st)" "success r"
  shows "error (fst (handleSend (\<lambda>q. Resolved r) st)) = None
       \<and> isSending (fst (handleSend (\<lambda>q. Resolved r) st)) = False
       \<and> navigations (snd (handleSend (\<lambda>q. Resolved r) st)) = [js_str ''/sent'']
       \<and> map security_level (sendEmail_calls (snd (handleSend (\<lambda>q. Resolved r) st)))
            = [level_number (securityLevel st)]
       \<and> handleSend (\<lambda>q. Resolved (r\<lparr>security_level_used := u\<rparr>)) st
            = handleSend (\<lambda>q. Resolved r) st"
  using assms
  by (simp add: handleSend_def not_truthy_trim [symmetric] Let_def)

theorem handleSend_ignores_level_used_witness:
  "success sent_at_level4
   \<and> error (fst (handleSend (\<lambda>q. Resolved sent_at_level4) draft_level1)) = None
   \<and> handleSend (\<lambda>q. Resolved (sent_at_level4\<lparr>security_level_used := 1\<rparr>)) draft_level1
        = handleSend (\<lambda>q. Resolved sent_at_level4) draft_level1"
proof -
  have s: "success sent_at_level4"
    by (simp add: sent_at_level4_def)
  have "\<not> blank (to draft_level1)" "\<not> blank (subject draft_level1)" "\<not> blank (body draft_level1)"
    by (simp_all add: draft_level1_def sample_fields_not_blank)
  from handleSend_ignores_level_used [OF this s, of 1] s show ?thesis
    by simp
qed

text \<open>
  The claim as stated fails: a level 1 request that the backend reports as sent at level 4
  ends with no message at all, on the sent folder, the form state as it was.
\<close>

theorem silent_downgrade_counterexample:
  "map security_level (sendEmail_calls (snd (handleSend (\<lambda>q. Resolved sent_at_level4) draft_level1))) = [1]
   \<and> security_level_used sent_at_level4 = 4
   \<and> error (fst (handleSend (\<lambda>q. Resolved sent_at_level4) draft_level1)) = None
   \<and> navigations (snd (handleSend (\<lambda>q. Resolved sent_at_level4) draft_level1)) = [js_str ''/sent'']
   \<and> fst (handleSend (\<lambda>q. Resolved sent_at_level4) draft_level1) = draft_level1"
  by (simp add: handleSend_def draft_level1_def sent_at_level4_def truthy_def trim_def
      js_str_def isWhiteSpace_def Let_def)

section \<open>Which levels the selector offers\<close>

text \<open>
  C6.  Level 4 is always available: whatever the status is (also none at all, or a
  disconnected key manager with no key material), \<open>isLevelAvailable\<close> answers true for
  level 4 and a click on it selects it.
\<close>

theorem level4_always_available:
  "isLevelAvailable current L4 = True \<and> levelClick current value L4 = L4"
  by (simp add: isLevelAvailable_def levelClick_def)

text \<open>
  C5, as the code has it.  Whether level 1 is offered depends on a fixed threshold of
  1000 bytes, not on the size of the payload: level 1 is available exactly when the key
  manager is connected and reports at least 1000 bytes of one-time pad, level 2 exactly
  when it is connected and reports at least one AES key.  A click on a level that is not
  available leaves the selection as it was; no other level is chosen in its place.  With
  no one-time pad and 5 AES keys, level 1 is not available and level 2 is.
\<close>

theorem level1_fixed_threshold:
  "isLevelAvailable current L1
     = (case current of None \<Rightarrow> False
        | Some s \<Rightarrow> km_connected s \<and> 1000 \<le> otp_bytes (available_key_material s))
   \<and> isLevelAvailable current L2
     = (case current of None \<Rightarrow> False
        | Some s \<Rightarrow> km_connected s \<and> 1 \<le> aes_keys (available_key_material s))
   \<and> levelClick current value L1 = (if isLevelAvailable current L1 then L1 else value)
   \<and> (km_connected s \<and> otp_bytes (available_key_material s) = 0
        \<and> aes_keys (available_key_material s) = 5
      \<longrightarrow> \<not> isLevelAvailable (Some s) L1 \<and> isLevelAvailable (Some s) L2
          \<and> levelClick (Some s) value L1 = value)"
  by (auto simp: isLevelAvailable_def levelClick_def or_zero_def split: option.splits)

theorem level1_fixed_threshold_witness:
  "km_connected status_no_otp \<and> otp_bytes (available_key_material status_no_otp) = 0
   \<and> aes_keys (available_key_material status_no_otp) = 5
   \<and> \<not> isLevelAvailable (Some status_no_otp) L1 \<and> isLevelAvailable (Some status_no_otp) L2
   \<and> levelClick (Some status_no_otp) L2 L1 = L2"
proof -
  have h: "km_connected status_no_otp \<and> otp_bytes (available_key_material status_no_otp) = 0
     \<and> aes_keys (available_key_material status_no_otp) = 5"
    by (simp add: status_no_otp_def status_2000_def)
  from level1_fixed_threshold [of "Some status_no_otp" L2 status_no_otp] h show ?thesis
    by simp
qed

text \<open>
  The claim as stated fails: with 2000 bytes of one-time pad reported, fewer than a
  payload of 5000 bytes needs, level 1 is still available and a click selects it, where
  the claim has level 2 approved.
\<close>

theorem level1_payload_counterexample:
  "otp_bytes (available_key_material status_2000) < 5000
   \<and> 1 \<le> aes_keys (available_key_material status_2000)
   \<and> isLevelAvailable (Some status_2000) L1
   \<and> levelClick (Some status_2000) L2 L1 = L1
   \<and> levelClick (Some status_2000) L2 L1 \<noteq> L2"
  by (simp add: isLevelAvailable_def levelClick_def or_zero_def status_2000_def)

section \<open>Responses that are not OK\<close>

lemma headers_fold_None:
  "(fold headers_append init h name = None) = (h name = None \<and> name \<notin> lower ` fst ` set init)"
  by (induction init arbitrary: h) (auto simp: headers_append_def)

lemma new_Headers_None: "(new_Headers init name = None) = (name \<notin> lower ` fst ` set init)"
  by (simp add: new_Headers_def headers_fold_None)

lemma lower_Content_Type: "js_str ''authorization'' \<noteq> lower (js_str ''Content-Type'')"
  by (simp add: lower_def js_str_def lower_unit_def)

lemma own_authorization_iff:
  "own_authorization options
     = (case init_headers options of None \<Rightarrow> False
        | Some hs \<Rightarrow> js_str ''authorization'' \<in> lower ` fst ` set hs)"
  by (force simp: own_authorization_def list_ex_iff image_iff split: option.splits)

lemma cleared_token_no_header:
  "authToken c = None \<Longrightarrow>
   (request_headers c options (js_str ''authorization'') = None) = (\<not> own_authorization options)"
  by (auto simp: request_headers_def Let_def new_Headers_None lower_Content_Type map_add_None
        own_authorization_iff split: option.splits)

lemma detail_cases: "detail v = Inl TypeError \<or> (\<exists>d. detail v = Inr d)"
  by (cases v) auto

text \<open>
  C9.  When the backend answers with a status that is not OK, \<open>request\<close> throws:
  an \<open>Error\<close> with the body's \<open>detail\<close> or the status in its message, or the
  \<open>TypeError\<close> of reading \<open>detail\<close> from a body that is \<open>null\<close>; it never
  returns a parsed body.  When the status is 401 the module's token is cleared and one
  \<open>qumail:unauthorized\<close> event is dispatched, so a later request that brings no
  \<open>Authorization\<close> header of its own is fetched without one; for any other status
  the module's state is unchanged.
\<close>

theorem request_not_ok_throws:
  assumes "fetch (fetch_call_of c endpoint options) = Responded response"
      and "\<not> ok response"
  shows "(fst (request fetch endpoint options c) = Inl TypeError
          \<or> (\<exists>message. fst (request fetch endpoint options c) = Inl (Error message)))
       \<and> (status response = 401 \<longrightarrow>
            authToken (snd (request fetch endpoint options c)) = None
          \<and> dispatched (snd (request fetch endpoint options c))
               = dispatched c @ [js_str ''qumail:unauthorized'']
          \<and> (\<forall>later. \<not> own_authorization later \<longrightarrow>
                call_headers (fetch_call_of (snd (request fetch endpoint options c)) endpoint' later)
                  (js_str ''authorization'') = None))
       \<and> (status response \<noteq> 401 \<longrightarrow> snd (request fetch endpoint options c) = c)"
proof -
  let ?errorData = "case json_body response of None \<Rightarrow> JObj [] | Some d \<Rightarrow> d"
  let ?c' = "if status response = 401
             then c\<lparr>authToken := None, dispatched := dispatched c @ [js_str ''qumail:unauthorized'']\<rparr>
             else c"
  have state: "snd (request fetch endpoint options c) = ?c'"
    using assms by (simp add: request_def Let_def split: sum.splits)
  have thrown: "fst (request fetch endpoint options c) = Inl TypeError
          \<or> (\<exists>message. fst (request fetch endpoint options c) = Inl (Error message))"
    using assms detail_cases [of ?errorData]
    by (auto simp: request_def Let_def split: sum.splits)
  have later: "status response = 401 \<Longrightarrow> \<not> own_authorization later \<Longrightarrow>
      call_headers (fetch_call_of ?c' endpoint' later) (js_str ''authorization'') = None" for later
    by (simp add: fetch_call_of_def cleared_token_no_header)
  show ?thesis
    using thrown later by (simp add: state)
qed

theorem request_not_ok_throws_witness:
  "\<not> ok expired_session \<and> status expired_session = 401 \<and> \<not> own_authorization plain_get
   \<and> request (\<lambda>call. Responded expired_session) (js_str ''/emails'') plain_get logged_in
       = (Inl (Error (js_str ''Invalid token'')),
          \<lparr>authToken = None, dispatched = [js_str ''qumail:unauthorized'']\<rparr>)
   \<and> call_headers (fetch_call_of
         (snd (request (\<lambda>call. Responded expired_session) (js_str ''/emails'') plain_get logged_in))
         (js_str ''/emails'') plain_get) (js_str ''authorization'') = None"
proof -
  have nok: "\<not> ok expired_session" and st: "status expired_session = 401"
    by (simp_all add: ok_def expired_session_def)
  have own: "\<not> own_authorization plain_get"
    by (simp add: own_authorization_def plain_get_def)
  have run: "request (\<lambda>call. Responded expired_session) (js_str ''/emails'') plain_get logged_in
       = (Inl (Error (js_str ''Invalid token'')),
          \<lparr>authToken = None, dispatched = [js_str ''qumail:unauthorized'']\<rparr>)"
    by (simp add: request_def ok_def expired_session_def logged_in_def Let_def truthy_def js_str_def)
  from request_not_ok_throws [of "\<lambda>call. Responded expired_session" logged_in "js_str ''/emails''"
      plain_get expired_session "js_str ''/emails''", OF refl nok] st own
  have "call_headers (fetch_call_of
         (snd (request (\<lambda>call. Responded expired_session) (js_str ''/emails'') plain_get logged_in))
         (js_str ''/emails'') plain_get) (js_str ''authorization'') = None"
    by blast
  with nok st own run show ?thesis by simp
qed

text \<open>Before the 401 the same request carried the token.\<close>

lemma logged_in_sends_token:
  "call_headers (fetch_call_of logged_in (js_str ''/emails'') plain_get) (js_str ''authorization'')
     = Some (js_str ''Bearer tok'')"
  by (simp add: fetch_call_of_def request_headers_def logged_in_def plain_get_def Let_def truthy_def
      new_Headers_def headers_append_def lower_def lower_unit_def js_str_def)

section \<open>The key pool: one-time use and exhaustion\<close>

lemma pool_ok_new: "pool_ok (new_pool c e)"
  by (simp add: pool_ok_def new_pool_def)

lemma release_records:
  "records (kpa_release j s) k
     = (if k = j then (case records s k of None \<Rightarrow> None
                       | Some r \<Rightarrow> if state r = Reserved
                                   then Some (r\<lparr>state := Provisioned, reserved_at := None\<rparr>) else Some r)
        else records s k)"
  by (simp add: kpa_release_def split: option.splits)

lemma release_frame:
  "vault (kpa_release j s) = vault s" "next_key_id (kpa_release j s) = next_key_id s"
  by (simp_all add: kpa_release_def split: option.splits)

lemma release_keeps: "pool_ok s \<Longrightarrow> pool_ok (kpa_release j s)"
  by (auto simp: pool_ok_def release_records release_frame split: option.splits if_splits)

lemma release_consumed: "consumed s k \<Longrightarrow> consumed (kpa_release j s) k"
  by (auto simp: consumed_def release_records release_frame split: option.splits)

lemma sweep_fold_keeps:
  "pool_ok s \<Longrightarrow> consumed s k \<Longrightarrow>
   pool_ok (fold (\<lambda>j s'. if expired now s' j then kpa_release j s' else s') js s)
   \<and> consumed (fold (\<lambda>j s'. if expired now s' j then kpa_release j s' else s') js s) k"
  by (induction js arbitrary: s) (simp_all add: release_keeps release_consumed)

lemma sweep_fold_ok:
  "pool_ok s \<Longrightarrow> pool_ok (fold (\<lambda>j s'. if expired now s' j then kpa_release j s' else s') js s)"
  by (induction js arbitrary: s) (simp_all add: release_keeps)

lemma consumed_below: "pool_ok s \<Longrightarrow> consumed s k \<Longrightarrow> k < next_key_id s"
  by (auto simp: pool_ok_def consumed_def split: option.splits)

lemma step_keeps_ok: "pool_ok s \<Longrightarrow> pool_ok (snd (kpa_step op s))"
proof (cases op)
  case (Request now peer n p)
  assume "pool_ok s"
  then show ?thesis using Request
    by (auto simp: kpa_request_def pool_ok_def Let_def less_Suc_eq)
next
  case (Consume now k)
  assume "pool_ok s"
  then show ?thesis using Consume
    by (auto simp: kpa_consume_def pool_ok_def zeroize_def split: option.splits)
next
  case (Sweep now)
  assume "pool_ok s"
  then show ?thesis using Sweep by (simp add: kpa_sweep_def sweep_fold_ok)
qed (auto simp: release_keeps split: sum.splits prod.splits)

lemma step_keeps_consumed:
  assumes "pool_ok s" "consumed s k"
  shows "consumed (snd (kpa_step op s)) k"
proof (cases op)
  case (Request now peer n p)
  then show ?thesis using assms consumed_below [OF assms]
    by (auto simp: kpa_request_def consumed_def Let_def)
next
  case (Consume now j)
  then show ?thesis using assms
    by (auto simp: kpa_consume_def consumed_def zeroize_def list_all_length split: option.splits)
next
  case (Sweep now)
  then show ?thesis using assms by (simp add: kpa_sweep_def sweep_fold_keeps)
qed (use assms in \<open>auto simp: release_consumed split: sum.splits prod.splits\<close>)

lemma step_denies:
  assumes "pool_ok s" "consumed s k"
  shows "denies k op (fst (kpa_step op s))"
proof (cases op)
  case (Request now peer n p)
  then show ?thesis using consumed_below [OF assms]
    by (auto simp: denies_def kpa_request_def Let_def)
next
  case (Retrieve j)
  then show ?thesis using assms
    by (auto simp: denies_def kpa_retrieve_def consumed_def pool_ok_def split: option.splits)
next
  case (Consume now j)
  then show ?thesis using assms
    by (auto simp: denies_def kpa_consume_def consumed_def split: option.splits)
qed (auto simp: denies_def split: prod.splits)

lemma run_Cons:
  "snd (kpa_run (op # ops) s) = snd (kpa_run ops (snd (kpa_step op s)))"
  "fst (kpa_run (op # ops) s) = fst (kpa_step op s) # fst (kpa_run ops (snd (kpa_step op s)))"
  by (simp_all split: prod.splits)

lemma run_keeps:
  "pool_ok s \<Longrightarrow> consumed s k \<Longrightarrow>
   pool_ok (snd (kpa_run ops s)) \<and> consumed (snd (kpa_run ops s)) k"
proof (induction ops arbitrary: s)
  case Nil
  then show ?case by simp
next
  case (Cons op ops)
  from Cons.prems have "pool_ok (snd (kpa_step op s))" "consumed (snd (kpa_step op s)) k"
    by (simp_all add: step_keeps_ok step_keeps_consumed)
  from Cons.IH [OF this] show ?case
    by (simp only: run_Cons)
qed

lemma run_denies:
  "pool_ok s \<Longrightarrow> consumed s k \<Longrightarrow> list_all2 (denies k) ops (fst (kpa_run ops s))"
proof (induction ops arbitrary: s)
  case Nil
  then show ?case by simp
next
  case (Cons op ops)
  from Cons.prems have "pool_ok (snd (kpa_step op s))" "consumed (snd (kpa_step op s)) k"
    by (simp_all add: step_keeps_ok step_keeps_consumed)
  from Cons.IH [OF this] step_denies [OF Cons.prems, of op] show ?case
    by (simp only: run_Cons list_all2_Cons)
qed

lemma consume_consumes:
  assumes "pool_ok s0" "kpa_step (Consume now k) s0 = (ConsumedAt now', s)"
  shows "pool_ok s \<and> consumed s k"
proof -
  have "pool_ok (snd (kpa_step (Consume now k) s0))"
    using assms(1) by (rule step_keeps_ok)
  moreover have "consumed s k"
    using assms
    by (auto simp: kpa_consume_def consumed_def zeroize_def list_all_length pool_ok_def
          split: option.splits if_splits)
  ultimately show ?thesis using assms(2) by simp
qed

text \<open>
  C1.  Once a key has been consumed, it stays consumed through every later run of
  operations: a later \<open>consume\<close> of it fails with \<open>AlreadyConsumed\<close>, a later
  \<open>retrieve\<close> with \<open>Gone\<close>, no reply of the run carries material of that key, and
  at the end its record is still \<open>Consumed\<close> and the server's copy still zeroized.
\<close>

theorem consumed_key_is_gone:
  assumes "pool_ok s0" and "kpa_step (Consume now k) s0 = (ConsumedAt now', s)"
  shows "list_all2 (denies k) ops (fst (kpa_run ops s))
       \<and> consumed (snd (kpa_run ops s)) k
       \<and> fst (kpa_step (Consume t k) (snd (kpa_run ops s))) = Failed AlreadyConsumed
       \<and> fst (kpa_step (Retrieve k) (snd (kpa_run ops s))) = Failed Gone"
proof -
  from consume_consumes [OF assms] have s: "pool_ok s" "consumed s k"
    by simp_all
  from run_keeps [OF s] have e: "pool_ok (snd (kpa_run ops s))" "consumed (snd (kpa_run ops s)) k"
    by simp_all
  from step_denies [OF e, of "Consume t k"] step_denies [OF e, of "Retrieve k"]
  show ?thesis using run_denies [OF s] e(2)
    by (simp add: denies_def)
qed

lemma after_request_ok: "pool_ok after_request"
  unfolding after_request_def small_pool_def by (intro step_keeps_ok pool_ok_new)

lemma after_consume_step: "kpa_step (Consume 101 0) after_request = (ConsumedAt 101, after_consume)"
  by (simp add: after_consume_def after_request_def small_pool_def new_pool_def kpa_request_def
      kpa_consume_def pool_bytes_def Let_def)

theorem consumed_key_is_gone_witness:
  "fst (kpa_step (Consume 101 0) after_request) = ConsumedAt 101
   \<and> fst (kpa_run [Retrieve 0, Release 0, Sweep 500, Request 501 ''bob'' 4 otp_seed, Consume 502 0]
           after_consume) ! 0 = Failed Gone
   \<and> fst (kpa_run [Retrieve 0, Release 0, Sweep 500, Request 501 ''bob'' 4 otp_seed, Consume 502 0]
           after_consume) ! 4 = Failed AlreadyConsumed
   \<and> consumed (snd (kpa_run [Retrieve 0, Release 0, Sweep 500, Request 501 ''bob'' 4 otp_seed,
           Consume 502 0] after_consume)) 0"
proof -
  let ?ops = "[Retrieve 0, Release 0, Sweep 500, Request 501 ''bob'' 4 otp_seed, Consume 502 0]"
  from consumed_key_is_gone [OF after_request_ok after_consume_step, of ?ops]
  have d: "list_all2 (denies 0) ?ops (fst (kpa_run ?ops after_consume))"
    and c: "consumed (snd (kpa_run ?ops after_consume)) 0"
    by simp_all
  from d have "denies 0 (?ops ! 0) (fst (kpa_run ?ops after_consume) ! 0)"
    by (rule list_all2_nthD) simp
  moreover from d have "denies 0 (?ops ! 4) (fst (kpa_run ?ops after_consume) ! 4)"
    by (rule list_all2_nthD) simp
  ultimately show ?thesis using c after_consume_step
    by (simp add: denies_def)
qed

text \<open>
  C8.  A request that would take the peer's bytes over the ceiling is answered
  \<open>Exhausted\<close> and leaves the pool as it was: no record is added or changed, no
  material is stored, no identifier and no random byte is used up.
\<close>

theorem exhausted_changes_nothing:
  assumes "ceiling s < pool_bytes s peer + n"
  shows "kpa_request now peer n p s = (Inl Exhausted, s)
       \<and> kpa_step (Request now peer n p) s = (Failed Exhausted, s)"
  using assms by (simp add: kpa_request_def)

theorem exhausted_changes_nothing_witness:
  "ceiling after_request < pool_bytes after_request ''bob'' + 61
   \<and> kpa_step (Request 200 ''bob'' 61 aes_seed) after_request = (Failed Exhausted, after_request)"
proof -
  have h: "ceiling after_request < pool_bytes after_request ''bob'' + 61"
    by (simp add: after_request_def small_pool_def new_pool_def kpa_request_def pool_bytes_def Let_def)
  from exhausted_changes_nothing [OF h] h show ?thesis
    by simp
qed

section \<open>The encryption engine: lengths and round trips\<close>

lemma xor_bytes_length: "length (xor_bytes xs ys) = min (length xs) (length ys)"
  by (simp add: xor_bytes_def)

lemma xor_bytes_inverse: "length ks = length xs \<Longrightarrow> xor_bytes (xor_bytes xs ks) ks = xs"
proof (induction xs ks rule: list_induct2')
  case (4 x xs k ks)
  then show ?case by (simp add: xor_bytes_def xor.assoc)
qed (simp_all add: xor_bytes_def)


text \<open>
  C3.  Level 1 encryption fails with \<open>MalformedEnvelope\<close> whenever the key and the
  plaintext differ in length; when it succeeds the lengths are equal, and the ciphertext
  is the byte-wise XOR of all of the plaintext with all of the key, as long as either:
  nothing is truncated or padded.  Level 1 decryption rejects a key whose length is not
  the ciphertext's in the same way, whatever the tag.
\<close>

theorem otp_length_invariant:
  "(length (key_bytes (acquired e)) \<noteq> length plaintext
      \<longrightarrow> encrypt P L1 plaintext e = Inl MalformedEnvelope)
   \<and> (length (key_bytes (acquired e)) = length plaintext
      \<longrightarrow> (case encrypt P L1 plaintext e of
            Inl err \<Rightarrow> False
          | Inr env \<Rightarrow> ciphertext env = xor_bytes plaintext (key_bytes (acquired e))
                    \<and> length (ciphertext env) = length plaintext
                    \<and> length (ciphertext env) = length (key_bytes (acquired e))))
   \<and> (envelope_level env = L1 \<and> length (key_bytes (fetched d)) \<noteq> length (ciphertext env)
      \<longrightarrow> decrypt P env d = Inl MalformedEnvelope)"
  by (simp add: encrypt_def decrypt_def Let_def xor_bytes_length)

theorem otp_length_invariant_witness:
  "length (key_bytes (acquired sender)) \<noteq> length [1, 2 :: byte]
   \<and> encrypt toy L1 [1, 2] sender = Inl MalformedEnvelope
   \<and> length (key_bytes (acquired sender)) = length [1, 2, 3 :: byte]
   \<and> (case encrypt toy L1 [1, 2, 3] sender of
        Inl err \<Rightarrow> False
      | Inr env \<Rightarrow> ciphertext env = [0x0E, 0xF2, 0xA9])"
proof -
  have short: "length (key_bytes (acquired sender)) \<noteq> length [1, 2 :: byte]"
    and same: "length (key_bytes (acquired sender)) = length [1, 2, 3 :: byte]"
    by (simp_all add: sender_def pad3_def)
  have x: "xor_bytes [1, 2, 3] (key_bytes (acquired sender)) = [0x0E, 0xF2, 0xA9]"
    by (simp add: xor_bytes_def sender_def pad3_def)
  from otp_length_invariant [of sender "[1, 2]" toy] short
  have "encrypt toy L1 [1, 2] sender = Inl MalformedEnvelope"
    by blast
  moreover from otp_length_invariant [of sender "[1, 2, 3]" toy] same
  have "case encrypt toy L1 [1, 2, 3] sender of
          Inl err \<Rightarrow> False
        | Inr env \<Rightarrow> ciphertext env = xor_bytes [1, 2, 3] (key_bytes (acquired sender))"
    by (auto split: sum.splits)
  ultimately show ?thesis using short same x
    by (simp split: sum.splits)
qed

lemma cipher_inverts_pair:
  "cipher_inverts P \<Longrightarrow> aead_encrypt P k n a p = (c, t) \<Longrightarrow> aead_decrypt P k n a c t = Some p"
  by (metis cipher_inverts_def fst_conv snd_conv)

text \<open>
  C2.  With primitives whose cipher decrypts what it encrypted, and a valid key context,
  encryption succeeds and decryption of its envelope returns exactly the plaintext, at
  every level and for every plaintext, the empty one included.
\<close>

theorem round_trip:
  assumes "cipher_inverts P" and "valid_key_context P level plaintext e d"
  shows "(case encrypt P level plaintext e of
            Inl err \<Rightarrow> False
          | Inr env \<Rightarrow> decrypt P env d = Inr plaintext)"
proof (cases level)
  case L1
  then show ?thesis using assms(2)
    by (simp add: encrypt_def decrypt_def valid_key_context_def Let_def xor_bytes_length
        xor_bytes_inverse)
next
  case L2
  then show ?thesis using assms
    by (auto simp: encrypt_def decrypt_def valid_key_context_def cipher_inverts_pair Let_def
        split: prod.splits)
next
  case L3
  then show ?thesis using assms
    by (auto simp: encrypt_def decrypt_def valid_key_context_def cipher_inverts_pair Let_def
        split: prod.splits option.splits)
next
  case L4
  then show ?thesis
    by (simp add: encrypt_def decrypt_def)
qed

lemma toy_inverts: "cipher_inverts toy"
  by (simp add: cipher_inverts_def toy_def)

lemma toy_context: "valid_key_context toy level [1, 2, 3] sender recipient"
  by (simp add: valid_key_context_def toy_def sender_def recipient_def pad3_def)

lemma toy_context_empty: "valid_key_context toy L3 [] sender recipient"
  by (simp add: valid_key_context_def toy_def sender_def recipient_def pad3_def)

theorem round_trip_witness:
  "cipher_inverts toy
   \<and> valid_key_context toy L1 [1, 2, 3] sender recipient
   \<and> (case encrypt toy L1 [1, 2, 3] sender of Inl err \<Rightarrow> False
       | Inr env \<Rightarrow> decrypt toy env recipient = Inr [1, 2, 3])
   \<and> (case encrypt toy L2 [1, 2, 3] sender of Inl err \<Rightarrow> False
       | Inr env \<Rightarrow> decrypt toy env recipient = Inr [1, 2, 3])
   \<and> (case encrypt toy L3 [] sender of Inl err \<Rightarrow> False
       | Inr env \<Rightarrow> decrypt toy env recipient = Inr [])"
  using round_trip [OF toy_inverts toy_context, of L1] round_trip [OF toy_inverts toy_context, of L2]
    round_trip [OF toy_inverts toy_context_empty] toy_inverts toy_context [of L1]
  by simp

text \<open>
  The level 1 check fails closed: a tag that is not the one recomputed over the received
  ciphertext gives \<open>IntegrityFailure\<close> and no plaintext.
\<close>

lemma otp_tag_mismatch:
  assumes "envelope_level env = L1" "length (key_bytes (fetched d)) = length (ciphertext env)"
    and "tag env = Some t"
    and "t \<noteq> hmac P (fst (hkdf P (key_bytes (fetched d)) otp_mac_label)) (ciphertext env)"
  shows "decrypt P env d = Inl IntegrityFailure"
  using assms by (simp add: decrypt_def)

section \<open>The send guard of the form with attachments\<close>

text \<open>
  In the copy with attachments the guard on the body is weaker: a blank recipient or
  subject, or a blank body with no file attached, stops the send; a blank body with a file
  attached does not.
\<close>

lemma handleSend_attachments_guard:
  assumes "blank (to st) \<or> blank (subject st) \<or> (blank (body st) \<and> attachments st = [])"
  shows "sent (snd (handleSend_attachments sendEmail st)) = []
       \<and> navigated (snd (handleSend_attachments sendEmail st)) = []
       \<and> error (fst (handleSend_attachments sendEmail st)) \<noteq> None"
  using assms
  by (auto simp: handleSend_attachments_def not_truthy_trim)

lemma blank_body_with_file_is_sent:
  "blank (body draft_with_file)
   \<and> map req_body (sent (snd (handleSend_attachments (\<lambda>q. Resolved sent_at_level4) draft_with_file)))
       = [js_str ''  '']
   \<and> error (fst (handleSend_attachments (\<lambda>q. Resolved sent_at_level4) draft_with_file)) = None"
  by (simp add: handleSend_attachments_def draft_with_file_def sent_at_level4_def truthy_def trim_def
      blank_def js_str_def isWhiteSpace_def Let_def)

text \<open>It does not read the level that was used either: a successful send is a success toast.\<close>

lemma handleSend_attachments_ignores_level_used:
  "handleSend_attachments (\<lambda>q. Resolved (r\<lparr>security_level_used := u\<rparr>)) st
     = handleSend_attachments (\<lambda>q. Resolved r) st"
  by (simp add: handleSend_attachments_def Let_def)

end
